theory Spec2Isabelle
  imports Complex_Main "HOL-Library.Log_Nat"
begin

section \<open>pywemo subscription registry: data model\<close>

text \<open>
  The development embeds \<^verbatim>\<open>src/pywemo/subscribe.py\<close>. Python exceptions are values of
  \<open>exn\<close>; a method that mutates the registry takes the registry and returns the
  exception that escaped it (if any) together with the registry as it was left.
\<close>

datatype exn =
    ValueError
  | OverflowError
  | KeyError
  | AttributeError
  | RequestException
  | XMLSyntaxError
  | SubscriptionRegistryFailed
  | CallbackError nat

text \<open>
  A device is referenced, not owned. The registry reads \<open>host\<close>, \<open>serialnumber\<close>,
  \<open>basicevent.eventSubURL\<close>, \<open>insight.eventSubURL\<close> (the attribute \<open>insight\<close> exists
  only on some devices: \<open>None\<close> is \<open>hasattr(device, 'insight') = False\<close>) and
  \<open>rediscovery_enabled\<close>.
\<close>

record device =
  host :: string
  serialnumber :: string
  basicevent_eventSubURL :: string
  insight_eventSubURL :: "string option"
  rediscovery_enabled :: bool

text \<open>The two module-level endpoint resolvers; the timer-entry map is keyed by their identity.\<close>

datatype url_fn = basic_event_subscription_url | insight_event_subscription_url

fun url_fn_apply :: "url_fn \<Rightarrow> device \<Rightarrow> exn + string" where
  "url_fn_apply basic_event_subscription_url d = Inr (basicevent_eventSubURL d)"
| "url_fn_apply insight_event_subscription_url d =
     (case insight_eventSubURL d of None \<Rightarrow> Inl AttributeError | Some u \<Rightarrow> Inr u)"

section \<open>Strings and numbers as Python computes them\<close>

text \<open>
  \<open>int(s)\<close> on a \<open>str\<close>: surrounding whitespace is stripped, one sign is allowed, then
  decimal digits, with single underscores between digits; anything else raises
  \<open>ValueError\<close>. Header values are Latin-1 text, whose only decimal digits are \<open>0\<close> to \<open>9\<close>.
\<close>

definition is_ascii_space :: "char \<Rightarrow> bool" where
  "is_ascii_space c \<longleftrightarrow> c \<in> set [CHR 0x09, CHR 0x0A, CHR 0x0B, CHR 0x0C, CHR 0x0D, CHR 0x20]"

definition is_space :: "char \<Rightarrow> bool" where
  "is_space c \<longleftrightarrow> is_ascii_space c \<or> c = CHR 0x85 \<or> c = CHR 0xA0"

definition is_digit :: "char \<Rightarrow> bool" where
  "is_digit c \<longleftrightarrow> c \<in> set ''0123456789''"

definition digit_val :: "char \<Rightarrow> nat" where
  "digit_val c = of_char c - 48"

definition strip_with :: "(char \<Rightarrow> bool) \<Rightarrow> string \<Rightarrow> string" where
  "strip_with sp s = rev (dropWhile sp (rev (dropWhile sp s)))"

fun digits_value :: "nat \<Rightarrow> string \<Rightarrow> nat option" where
  "digits_value acc [] = Some acc"
| "digits_value acc [c] = (if is_digit c then Some (10 * acc + digit_val c) else None)"
| "digits_value acc (c # d # cs) =
     (if is_digit c then digits_value (10 * acc + digit_val c) (d # cs)
      else if c = CHR ''_'' \<and> is_digit d then digits_value (10 * acc + digit_val d) cs
      else None)"

definition py_digits :: "string \<Rightarrow> nat option" where
  "py_digits s = (case s of [] \<Rightarrow> None
     | c # cs \<Rightarrow> if is_digit c then digits_value (digit_val c) cs else None)"

definition py_int :: "string \<Rightarrow> exn + int" where
  "py_int s =
     (let t = strip_with is_space s;
          r = (case t of [] \<Rightarrow> None
               | c # cs \<Rightarrow>
                   if c = CHR ''+'' then map_option int (py_digits cs)
                   else if c = CHR ''-'' then map_option (\<lambda>n. - int n) (py_digits cs)
                   else map_option int (py_digits t))
      in case r of None \<Rightarrow> Inl ValueError | Some n \<Rightarrow> Inr n)"

text \<open>\<open>'%d' % n\<close> and \<open>str(n)\<close> for a natural number.\<close>

fun decimal :: "nat \<Rightarrow> string" where
  "decimal n =
     (if n < 10 then [''0123456789'' ! n] else decimal (n div 10) @ [''0123456789'' ! (n mod 10)])"

declare decimal.simps [simp del]

text \<open>\<open>s.replace(old, new)\<close>: leftmost non-overlapping occurrences.\<close>

function str_replace :: "string \<Rightarrow> string \<Rightarrow> string \<Rightarrow> string" where
  "str_replace old new [] = (if old = [] then new else [])"
| "str_replace old new (c # cs) =
     (if old = [] then new @ c # str_replace old new cs
      else if take (length old) (c # cs) = old
        then new @ str_replace old new (drop (length old) (c # cs))
      else c # str_replace old new cs)"
  by pat_completeness auto
termination
  by (relation "measure (\<lambda>(old, new, s). length s)") auto

declare str_replace.simps [simp del]

text \<open>\<open>url.rsplit('/')[-1]\<close>: what follows the last slash (the whole string if there is none).\<close>

definition last_segment :: "string \<Rightarrow> string" where
  "last_segment url = rev (takeWhile (\<lambda>c. c \<noteq> CHR ''/'') (rev url))"

text \<open>
  \<open>int(timeout * 0.75)\<close> multiplies an \<open>int\<close> by a \<open>float\<close>: the integer is converted to an
  IEEE double (round to nearest, ties to even, 53 significant bits; \<open>OverflowError\<close> from
  \<open>2 ^ 1024\<close> on), the product with \<open>3/4\<close> is rounded again, and \<open>int\<close> truncates towards
  zero. \<open>round53\<close> rounds a non-negative integer significand; the product is computed in
  quarters.
\<close>

definition round53 :: "int \<Rightarrow> int" where
  "round53 a =
     (if a < 2 ^ 53 then a
      else let s = nat (bitlen a - 53); hi = a div 2 ^ s; lo = a mod 2 ^ s;
               up = (2 * lo > 2 ^ s \<or> (2 * lo = 2 ^ s \<and> odd hi))
           in (if up then hi + 1 else hi) * 2 ^ s)"

definition py_float_of_int :: "int \<Rightarrow> exn + int" where
  "py_float_of_int n =
     (let m = round53 \<bar>n\<bar> in if m \<ge> 2 ^ 1024 then Inl OverflowError else Inr (sgn n * m))"

definition int_times_075 :: "int \<Rightarrow> exn + int" where
  "int_times_075 n =
     (case py_float_of_int n of Inl e \<Rightarrow> Inl e
      | Inr m \<Rightarrow> Inr (sgn m * (round53 (3 * \<bar>m\<bar>) div 4)))"

text \<open>Truthiness of an \<open>Optional[str]\<close>: \<open>None\<close> and the empty string are false.\<close>

definition truthy :: "string option \<Rightarrow> bool" where
  "truthy sid \<longleftrightarrow> (case sid of None \<Rightarrow> False | Some s \<Rightarrow> s \<noteq> [])"

section \<open>The registry, the scheduler queue and the outside world\<close>

type_synonym headers = "(string \<times> string) list"

text \<open>
  \<open>str.lower()\<close> on Latin-1 text, used by the case-insensitive header lookups.
\<close>

definition lower_char :: "char \<Rightarrow> char" where
  "lower_char c =
     (case map_of (zip ''ABCDEFGHIJKLMNOPQRSTUVWXYZ'' ''abcdefghijklmnopqrstuvwxyz'') c of
        Some l \<Rightarrow> l
      | None \<Rightarrow>
          (let n = (of_char c :: nat)
           in if 192 \<le> n \<and> n \<le> 222 \<and> n \<noteq> 215 then char_of (n + 32) else c))"

definition lower :: "string \<Rightarrow> string" where
  "lower s = map lower_char s"

text \<open>
  The answer to \<open>requests.request\<close>: a response with its status code and its headers, or a
  raised \<open>RequestException\<close>. The response's headers are a \<open>CaseInsensitiveDict\<close>, given
  here by its lookup on lower-cased names.
\<close>

datatype net_result = Response int "string \<Rightarrow> string option" | Raises

definition ci_get :: "(string \<Rightarrow> string option) \<Rightarrow> string \<Rightarrow> string option" where
  "ci_get rh k = rh (lower k)"

text \<open>
  What the registry does to the outside, in the order it does it: outbound requests
  (method, URL, headers), \<open>device.reconnect_with_device()\<close>, and calls of registered
  callbacks. Callbacks are opaque callables, named by a number.
\<close>

datatype effect =
    Request string string headers
  | Reconnect device
  | Callback nat device string "string option"

text \<open>An element tree as \<open>lxml\<close> returns it: tag, text, children.\<close>

datatype element = Element (el_tag: string) (el_text: "string option") (el_children: "element list")

text \<open>
  The environment: the network (its answer may depend on when the request is made: the
  clock is the number of effects so far), \<open>get_ip_address\<close> of \<open>util\<close>, whether a callback
  raises on given arguments, the XML parser \<open>et.fromstring\<close>, which ports can be bound,
  and the constant \<open>VIRTUAL_DEVICE_UDN\<close> of \<open>long_press\<close>.
\<close>

record env =
  net :: "nat \<Rightarrow> string \<Rightarrow> string \<Rightarrow> headers \<Rightarrow> net_result"
  get_ip_address :: "string \<Rightarrow> string option"
  callback_raises :: "nat \<Rightarrow> device \<Rightarrow> string \<Rightarrow> string option \<Rightarrow> bool"
  fromstring :: "string \<Rightarrow> element option"
  bindable :: "nat \<Rightarrow> bool"
  VIRTUAL_DEVICE_UDN :: string

text \<open>
  A pending scheduler event, as \<open>sched.scheduler.enter\<close> returns it: the delay it was
  entered with, the arguments \<open>(device, url_fn)\<close> and the keyword arguments \<open>sid\<close> and
  \<open>retry\<close> of the \<open>_resubscribe\<close> call it will make (an absent keyword is its default,
  \<open>None\<close> and \<open>0\<close>). \<open>ev_seq\<close> is the identity of the handle.
\<close>

record sched_event =
  ev_seq :: nat
  ev_delay :: int
  ev_device :: device
  ev_url_fn :: url_fn
  ev_sid :: "string option"
  ev_retry :: nat

text \<open>
  \<open>SubscriptionRegistry\<close>: \<open>devices\<close> (host to device), \<open>_callbacks\<close> (a
  \<open>defaultdict(list)\<close> from serial number to \<open>(type_filter, callback)\<close> pairs), \<open>_events\<close>
  (serial number to endpoint to handle), the queue of \<open>_sched\<close>, and \<open>_httpd\<close> (the bound
  port, \<open>None\<close> before \<open>start\<close>).
\<close>

record registry =
  devices :: "string \<rightharpoonup> device"
  callbacks :: "string \<rightharpoonup> (string option \<times> nat) list"
  events :: "string \<rightharpoonup> (url_fn \<rightharpoonup> sched_event)"
  queue :: "sched_event list"
  next_seq :: nat
  httpd :: "nat option"
  trace :: "effect list"

definition new_registry :: registry where
  "new_registry = \<lparr>devices = Map.empty, callbacks = Map.empty, events = Map.empty,
     queue = [], next_seq = 0, httpd = None, trace = []\<rparr>"

definition port :: "registry \<Rightarrow> exn + nat" where
  "port R = (case httpd R of None \<Rightarrow> Inl AttributeError | Some p \<Rightarrow> Inr p)"

definition do_effect :: "effect \<Rightarrow> registry \<Rightarrow> registry" where
  "do_effect x R = R\<lparr>trace := trace R @ [x]\<rparr>"

definition request :: "env \<Rightarrow> string \<Rightarrow> string \<Rightarrow> headers \<Rightarrow> registry \<Rightarrow> net_result \<times> registry" where
  "request E m u h R = (net E (length (trace R)) m u h, do_effect (Request m u h) R)"

subsection \<open>\<open>_schedule\<close> and the membership check before it\<close>

text \<open>
  \<open>self._events[serial][url_fn] = self._sched.enter(delay, 0, self._resubscribe, ...)\<close>: the
  right-hand side is evaluated first, so the event is in the queue even when the
  subscript raises \<open>KeyError\<close>.
\<close>

definition schedule ::
  "int \<Rightarrow> device \<Rightarrow> url_fn \<Rightarrow> string option \<Rightarrow> nat \<Rightarrow> registry \<Rightarrow> exn option \<times> registry" where
  "schedule delay d f sid retry R =
     (let ev = \<lparr>ev_seq = next_seq R, ev_delay = delay, ev_device = d, ev_url_fn = f,
                 ev_sid = sid, ev_retry = retry\<rparr>;
          R1 = R\<lparr>queue := queue R @ [ev], next_seq := Suc (next_seq R)\<rparr>
      in case events R1 (serialnumber d) of
           None \<Rightarrow> (Some KeyError, R1)
         | Some m \<Rightarrow> (None, R1\<lparr>events := (events R1)(serialnumber d \<mapsto> m(f \<mapsto> ev))\<rparr>))"

text \<open>\<open>url_fn in self._events.get(device.serialnumber, {})\<close>\<close>

definition has_entry :: "registry \<Rightarrow> device \<Rightarrow> url_fn \<Rightarrow> bool" where
  "has_entry R d f =
     (case events R (serialnumber d) of None \<Rightarrow> False | Some m \<Rightarrow> m f \<noteq> None)"

subsection \<open>\<open>_resubscribe\<close> and \<open>_url_resubscribe\<close>\<close>

text \<open>
  The request headers built by \<open>_resubscribe\<close>: the renewal path carries the SID, the
  initial path \<open>CALLBACK\<close> and \<open>NT\<close>. \<open>self.port\<close> reads \<open>self._httpd.server_address\<close>.
\<close>

definition subscribe_headers ::
  "env \<Rightarrow> device \<Rightarrow> string \<Rightarrow> string option \<Rightarrow> registry \<Rightarrow> exn + headers" where
  "subscribe_headers E d path sid R =
     (case sid of
        Some s \<Rightarrow> Inr [(''TIMEOUT'', ''Second-300''), (''SID'', s)]
      | None \<Rightarrow>
          (let h = (case get_ip_address E (host d) of None \<Rightarrow> ''None'' | Some a \<Rightarrow> a)
           in case port R of
                Inl e \<Rightarrow> Inl e
              | Inr p \<Rightarrow>
                  Inr [(''TIMEOUT'', ''Second-300''),
                       (''CALLBACK'', ''<http://'' @ h @ '':'' @ decimal p @ ''/'' @ path @ ''>''),
                       (''NT'', ''upnp:event'')]))"

text \<open>
  The end of \<open>_url_resubscribe\<close>, after the 412 check: parse the granted timeout (the
  response's \<open>TIMEOUT\<close>, else the request's), take the response's \<open>sid\<close> (else the held
  one), and schedule at \<open>int(timeout * 0.75)\<close> if the timer entry is still there.
\<close>

definition reschedule_granted ::
  "device \<Rightarrow> headers \<Rightarrow> string option \<Rightarrow> url_fn \<Rightarrow> (string \<Rightarrow> string option) \<Rightarrow> registry
     \<Rightarrow> exn option \<times> registry" where
  "reschedule_granted d hdrs sid f rh R =
     (case (case ci_get rh ''TIMEOUT'' of Some v \<Rightarrow> Some v | None \<Rightarrow> map_of hdrs ''TIMEOUT'') of
        None \<Rightarrow> (Some AttributeError, R)
      | Some v \<Rightarrow>
          (case py_int (str_replace ''Second-'' [] v) of
             Inl e \<Rightarrow> (Some e, R)
           | Inr timeout \<Rightarrow>
               (let sid' = (case ci_get rh ''sid'' of Some s \<Rightarrow> Some s | None \<Rightarrow> sid)
                in if has_entry R d f
                   then (case int_times_075 timeout of
                           Inl e \<Rightarrow> (Some e, R)
                         | Inr delay \<Rightarrow> schedule delay d f sid' 0 R)
                   else (None, R))))"

text \<open>
  The \<open>except requests.exceptions.RequestException\<close> block of \<open>_resubscribe\<close>.
\<close>

definition SUBSCRIPTION_RETRY :: int where
  "SUBSCRIPTION_RETRY = 60"

definition retry_later ::
  "device \<Rightarrow> url_fn \<Rightarrow> string option \<Rightarrow> nat \<Rightarrow> registry \<Rightarrow> exn option \<times> registry" where
  "retry_later d f sid retry R =
     (let retry1 = retry + 1;
          R1 = (if retry1 > 1 \<and> rediscovery_enabled d then do_effect (Reconnect d) R else R)
      in if has_entry R1 d f then schedule SUBSCRIPTION_RETRY d f sid retry1 R1 else (None, R1))"

function resubscribe ::
    "env \<Rightarrow> device \<Rightarrow> url_fn \<Rightarrow> string option \<Rightarrow> nat \<Rightarrow> registry \<Rightarrow> exn option \<times> registry"
  and url_resubscribe ::
    "env \<Rightarrow> device \<Rightarrow> headers \<Rightarrow> string option \<Rightarrow> url_fn \<Rightarrow> registry \<Rightarrow> exn option \<times> registry"
where
  "resubscribe E d f sid retry R =
     (case url_fn_apply f d of
        Inl e \<Rightarrow> (Some e, R)
      | Inr u \<Rightarrow>
          (case subscribe_headers E d (last_segment u) sid R of
             Inl e \<Rightarrow> (Some e, R)
           | Inr hdrs \<Rightarrow>
               (let (x, R1) = url_resubscribe E d hdrs sid f R
                in if x = Some RequestException then retry_later d f sid retry R1 else (x, R1))))"
| "url_resubscribe E d hdrs sid f R =
     (case url_fn_apply f d of
        Inl e \<Rightarrow> (Some e, R)
      | Inr u \<Rightarrow>
          (case request E ''SUBSCRIBE'' u hdrs R of
             (Raises, R1) \<Rightarrow> (Some RequestException, R1)
           | (Response status rh, R1) \<Rightarrow>
               if status = 412 \<and> truthy sid then
                 (case sid of
                    None \<Rightarrow> reschedule_granted d hdrs sid f rh R1
                  | Some s \<Rightarrow>
                      (case request E ''UNSUBSCRIBE'' u [(''SID'', s)] R1 of
                         (Raises, R2) \<Rightarrow> (Some RequestException, R2)
                       | (Response status2 rh2, R2) \<Rightarrow> resubscribe E d f None 0 R2))
               else reschedule_granted d hdrs sid f rh R1))"
  by pat_completeness auto
termination
  by (relation "measure (\<lambda>x. case x of
          Inl (E, d, f, sid, retry, R) \<Rightarrow> (if truthy sid then 3 else 1)
        | Inr (E, d, hdrs, sid, f, R) \<Rightarrow> (if truthy sid then 2 else 0))")
     (auto simp: truthy_def)

declare resubscribe.simps [simp del] url_resubscribe.simps [simp del]

text \<open>
  The scheduler runs a pending event: it takes it off the queue and calls
  \<open>self._resubscribe(device, url_fn, **kwargs)\<close>.
\<close>

definition fire :: "env \<Rightarrow> sched_event \<Rightarrow> registry \<Rightarrow> exn option \<times> registry" where
  "fire E ev R =
     resubscribe E (ev_device ev) (ev_url_fn ev) (ev_sid ev) (ev_retry ev)
       (R\<lparr>queue := remove1 ev (queue R)\<rparr>)"

subsection \<open>\<open>register\<close> and \<open>unregister\<close>\<close>

text \<open>A device argument that is falsy (\<open>None\<close>) is \<open>None\<close> here.\<close>

fun register :: "device option \<Rightarrow> registry \<Rightarrow> exn option \<times> registry" where
  "register None R = (None, R)"
| "register (Some d) R =
     (let R1 = R\<lparr>devices := (devices R)(host d \<mapsto> d)\<rparr>;
          R2 = R1\<lparr>events := (events R1)(serialnumber d \<mapsto> Map.empty)\<rparr>
      in case schedule 0 d basic_event_subscription_url None 0 R2 of
           (Some e, R3) \<Rightarrow> (Some e, R3)
         | (None, R3) \<Rightarrow>
             if insight_eventSubURL d \<noteq> None
             then schedule 0 d insight_event_subscription_url None 0 R3
             else (None, R3))"

text \<open>
  \<open>_cancel_events\<close>: \<open>scheduler.cancel(event)\<close> removes the event from the queue; the
  \<open>ValueError\<close> for an event that is no longer there is caught.
\<close>

fun cancel_events :: "sched_event list \<Rightarrow> registry \<Rightarrow> registry" where
  "cancel_events [] R = R"
| "cancel_events (ev # evs) R = cancel_events evs (R\<lparr>queue := remove1 ev (queue R)\<rparr>)"

definition dict_values :: "(url_fn \<rightharpoonup> sched_event) \<Rightarrow> sched_event list" where
  "dict_values m =
     List.map_filter m [basic_event_subscription_url, insight_event_subscription_url]"

text \<open>
  \<open>self._callbacks[serial]\<close> on the \<open>defaultdict\<close> yields a list (never \<open>None\<close>), so the
  entry is always deleted. \<open>self.devices[device.host]\<close> is a subscript on a plain \<open>dict\<close>:
  it raises \<open>KeyError\<close> for a host that is not a key.
\<close>

fun unregister :: "device option \<Rightarrow> registry \<Rightarrow> exn option \<times> registry" where
  "unregister None R = (None, R)"
| "unregister (Some d) R =
     (let R1 = R\<lparr>callbacks := (callbacks R)(serialnumber d := None)\<rparr>;
          R2 = (case events R1 (serialnumber d) of
                  None \<Rightarrow> R1
                | Some m \<Rightarrow>
                    (cancel_events (dict_values m) R1)
                      \<lparr>events := (events R1)(serialnumber d := None)\<rparr>)
      in case devices R2 (host d) of
           None \<Rightarrow> (Some KeyError, R2)
         | Some x \<Rightarrow> (None, R2\<lparr>devices := (devices R2)(host d := None)\<rparr>))"

subsection \<open>\<open>on\<close> and \<open>event\<close>\<close>

definition on :: "device \<Rightarrow> string option \<Rightarrow> nat \<Rightarrow> registry \<Rightarrow> registry" where
  "on d type_filter callback R =
     R\<lparr>callbacks := (callbacks R)(serialnumber d \<mapsto>
          (case callbacks R (serialnumber d) of None \<Rightarrow> [] | Some cbs \<Rightarrow> cbs)
            @ [(type_filter, callback)])\<rparr>"

text \<open>
  The loop of \<open>event\<close>. A callback that raises ends it: nothing in \<open>event\<close> catches.
\<close>

fun run_callbacks ::
  "env \<Rightarrow> device \<Rightarrow> string \<Rightarrow> string option \<Rightarrow> (string option \<times> nat) list \<Rightarrow> registry
     \<Rightarrow> exn option \<times> registry" where
  "run_callbacks E d type v [] R = (None, R)"
| "run_callbacks E d type v ((type_filter, callback) # cbs) R =
     (if type_filter = None \<or> Some type = type_filter
      then (let R1 = do_effect (Callback callback d type v) R
            in if callback_raises E callback d type v
               then (Some (CallbackError callback), R1)
               else run_callbacks E d type v cbs R1)
      else run_callbacks E d type v cbs R)"

definition event :: "env \<Rightarrow> device \<Rightarrow> string \<Rightarrow> string option \<Rightarrow> registry \<Rightarrow> exn option \<times> registry" where
  "event E d type v R =
     run_callbacks E d type v
       (case callbacks R (serialnumber d) of None \<Rightarrow> [] | Some cbs \<Rightarrow> cbs) R"

section \<open>Listener bind\<close>

text \<open>
  \<open>_start_server\<close>: \<open>for i in range(0, 128)\<close>, try \<open>ThreadingHTTPServer(('', 8989 + i), ...)\<close>,
  \<open>continue\<close> on \<open>OSError\<close>, \<open>return None\<close> after the loop. The second argument counts the
  ports already tried, the third those left.
\<close>

fun start_server_from :: "env \<Rightarrow> nat \<Rightarrow> nat \<Rightarrow> nat option" where
  "start_server_from E i 0 = None"
| "start_server_from E i (Suc k) =
     (if bindable E (8989 + i) then Some (8989 + i) else start_server_from E (Suc i) k)"

definition start_server :: "env \<Rightarrow> nat option" where
  "start_server E = start_server_from E 0 128"

text \<open>
  \<open>start\<close> stores what \<open>_start_server\<close> returned in \<open>_httpd\<close> and raises when it is \<open>None\<close>.
  The two threads it then starts are outside this model.
\<close>

definition start :: "env \<Rightarrow> registry \<Rightarrow> exn option \<times> registry" where
  "start E R =
     (case start_server E of
        None \<Rightarrow> (Some SubscriptionRegistryFailed, R\<lparr>httpd := None\<rparr>)
      | Some p \<Rightarrow> (None, R\<lparr>httpd := Some p\<rparr>))"

section \<open>The HTTP request handlers\<close>



definition NS :: string where
  \<open>NS = ''{urn:schemas-upnp-org:event-1-0}''\<close>

















section \<open>Notions used to state the properties\<close>







section \<open>Scenarios\<close>

text \<open>
  A switch and an Insight plug, and a world in which ports 8989 and 8990 are taken, every
  request is answered \<open>200\<close> with \<open>TIMEOUT: Second-400\<close> and a SID, no callback raises and
  the parser knows three documents.
\<close>

definition switch :: device where
  "switch = \<lparr>host = ''10.0.0.5'', serialnumber = ''SN1'',
     basicevent_eventSubURL = ''http://10.0.0.5:49153/upnp/event/basicevent1'',
     insight_eventSubURL = None, rediscovery_enabled = True\<rparr>"

definition plug :: device where
  "plug = \<lparr>host = ''10.0.0.6'', serialnumber = ''SN2'',
     basicevent_eventSubURL = ''http://10.0.0.6:49153/upnp/event/basicevent1'',
     insight_eventSubURL = Some ''http://10.0.0.6:49153/upnp/event/insight1'',
     rediscovery_enabled = False\<rparr>"

definition granted_400 :: "string \<Rightarrow> string option" where
  "granted_400 = [''timeout'' \<mapsto> ''Second-400'', ''sid'' \<mapsto> ''uuid:1'']"

definition notify_doc :: element where
  "notify_doc = Element (NS @ ''propertyset'') None
     [Element (NS @ ''property'') None [Element ''BinaryState'' (Some ''1'') []],
      Element (NS @ ''property'') None [Element ''Brightness'' (Some ''50'') []]]"

definition world :: env where
  "world = \<lparr>net = (\<lambda>k m u h. Response 200 granted_400),
     get_ip_address = (\<lambda>h. Some ''10.0.0.2''),
     callback_raises = (\<lambda>c d t v. False),
     fromstring = (\<lambda>s. if s = ''<e:propertyset/>'' then Some notify_doc
                        else if s = ''<a/>'' then Some (Element ''a'' None [])
                        else None),
     bindable = (\<lambda>p. 8991 \<le> p),
     VIRTUAL_DEVICE_UDN = ''uuid:Socket-1_0-PyWemoVirtualDevice''\<rparr>"

text \<open>
  Three callbacks registered for the switch, in this order: callback 3 for \<open>Other\<close>,
  callback 2 for \<open>BinaryState\<close>, callback 1 for every type.
\<close>

definition listening :: registry where
  "listening = on switch None 1 (on switch (Some ''BinaryState'') 2
     (on switch (Some ''Other'') 3 new_registry))"

text \<open>
  The registry after \<open>start\<close> and \<open>register(switch)\<close>; a \<open>SUBSCRIBE\<close> to the virtual device;
  a \<open>NOTIFY\<close> from the switch whose body is not XML; a \<open>NOTIFY\<close> from the switch whose
  body is a document with no property.
\<close>

definition home :: registry where
  "home = snd (register (Some switch) (snd (start world listening)))"




text \<open>
  The event that \<open>register(switch)\<close> enters, the headers of the switch's initial
  \<open>SUBSCRIBE\<close>, and the event entered after the grant of 400 seconds.
\<close>

definition first_event :: sched_event where
  "first_event = \<lparr>ev_seq = 0, ev_delay = 0, ev_device = switch,
     ev_url_fn = basic_event_subscription_url, ev_sid = None, ev_retry = 0\<rparr>"

definition initial_headers :: headers where
  "initial_headers = [(''TIMEOUT'', ''Second-300''),
     (''CALLBACK'', ''<http://10.0.0.2:8991/basicevent1>''), (''NT'', ''upnp:event'')]"

definition renewed_event :: sched_event where
  "renewed_event = \<lparr>ev_seq = 1, ev_delay = 300, ev_device = switch,
     ev_url_fn = basic_event_subscription_url, ev_sid = Some ''uuid:1'', ev_retry = 0\<rparr>"

section \<open>Properties of the listener bind\<close>

lemma start_server_from_none:
  "(\<forall>j<k. \<not> bindable E (8989 + i + j)) \<Longrightarrow> start_server_from E i k = None"
proof (induction k arbitrary: i)
  case 0
  then show ?case by simp
next
  case (Suc k)
  have "\<not> bindable E (8989 + i)" using Suc.prems by (metis add_0_right zero_less_Suc)
  moreover have "\<forall>j<k. \<not> bindable E (8989 + Suc i + j)"
    using Suc.prems by (metis Suc_less_eq add_Suc_right add_Suc_shift)
  ultimately show ?case using Suc.IH by simp
qed

lemma start_server_from_first:
  "j < k \<Longrightarrow> bindable E (8989 + i + j) \<Longrightarrow> (\<forall>l<j. \<not> bindable E (8989 + i + l))
     \<Longrightarrow> start_server_from E i k = Some (8989 + i + j)"
proof (induction k arbitrary: i j)
  case 0
  then show ?case by simp
next
  case (Suc k)
  show ?case
  proof (cases j)
    case 0
    then show ?thesis using Suc.prems by simp
  next
    case (Suc j')
    have nb: "\<not> bindable E (8989 + i)" using Suc.prems(3) Suc by (metis add_0_right zero_less_Suc)
    have a: "j' < k" using Suc.prems(1) Suc by simp
    have eq: "8989 + i + j = 8989 + Suc i + j'" using Suc by simp
    have b: "bindable E (8989 + Suc i + j')" using Suc.prems(2) unfolding eq .
    have c: "\<forall>l<j'. \<not> bindable E (8989 + Suc i + l)"
    proof (intro allI impI)
      fix l assume "l < j'"
      then have "Suc l < j" using Suc by simp
      then have "\<not> bindable E (8989 + i + Suc l)" using Suc.prems(3) by blast
      moreover have "8989 + i + Suc l = 8989 + Suc i + l" by simp
      ultimately show "\<not> bindable E (8989 + Suc i + l)" by metis
    qed
    have "start_server_from E (Suc i) k = Some (8989 + Suc i + j')"
      using Suc.IH [OF a b c] .
    then show ?thesis using nb unfolding eq by simp
  qed
qed

text \<open>
  C9. \<open>start\<close> scans the ports 8989, 8990, ..., 8989 + 127 in increasing order and binds
  the first one that can be bound, which is then the registry's \<open>port\<close>; when none of the
  128 can be bound it raises \<open>SubscriptionRegistryFailed\<close>.
\<close>

theorem start_first_bindable_port:
  "((\<forall>j<128. \<not> bindable E (8989 + j)) \<longrightarrow>
      start E R = (Some SubscriptionRegistryFailed, R\<lparr>httpd := None\<rparr>)) \<and>
   (\<forall>j<128. bindable E (8989 + j) \<and> (\<forall>l<j. \<not> bindable E (8989 + l)) \<longrightarrow>
      start E R = (None, R\<lparr>httpd := Some (8989 + j)\<rparr>) \<and>
      port (snd (start E R)) = Inr (8989 + j))"
proof (intro conjI allI impI)
  assume "\<forall>j<128. \<not> bindable E (8989 + j)"
  then show "start E R = (Some SubscriptionRegistryFailed, R\<lparr>httpd := None\<rparr>)"
    using start_server_from_none [of 128 E 0] by (simp add: start_def start_server_def)
next
  fix j :: nat
  assume j: "j < 128" and b: "bindable E (8989 + j) \<and> (\<forall>l<j. \<not> bindable E (8989 + l))"
  then have s: "start_server E = Some (8989 + j)"
    using start_server_from_first [of j 128 E 0] by (simp add: start_server_def)
  then show "start E R = (None, R\<lparr>httpd := Some (8989 + j)\<rparr>)"
    by (simp add: start_def)
  from s show "port (snd (start E R)) = Inr (8989 + j)"
    by (simp add: start_def port_def)
qed

theorem start_first_bindable_port_witness:
  "start world new_registry = (None, new_registry\<lparr>httpd := Some 8991\<rparr>) \<and>
   port (snd (start world new_registry)) = Inr 8991 \<and>
   start (world\<lparr>bindable := \<lambda>p. False\<rparr>) new_registry
     = (Some SubscriptionRegistryFailed, new_registry\<lparr>httpd := None\<rparr>)"
proof -
  have l: "\<forall>l<2. \<not> bindable world (8989 + l)"
    by (simp add: world_def less_Suc_eq numeral_2_eq_2)
  have b: "bindable world (8989 + 2)"
    by (simp add: world_def)
  have "start world new_registry = (None, new_registry\<lparr>httpd := Some (8989 + 2)\<rparr>) \<and>
        port (snd (start world new_registry)) = Inr (8989 + 2)"
    using start_first_bindable_port [of world new_registry, THEN conjunct2, rule_format, of 2] l b
    by (simp add: port_def)
  moreover have "start (world\<lparr>bindable := \<lambda>p. False\<rparr>) new_registry
      = (Some SubscriptionRegistryFailed, new_registry\<lparr>httpd := None\<rparr>)"
    using start_first_bindable_port [of "world\<lparr>bindable := \<lambda>p. False\<rparr>" new_registry] by simp
  ultimately show ?thesis by (simp add: port_def)
qed

section \<open>Properties of \<open>unregister\<close>\<close>

lemma devices_cancel_events [simp]: "devices (cancel_events evs Q) = devices Q"
  by (induction evs arbitrary: Q) simp_all

lemma callbacks_cancel_events [simp]: "callbacks (cancel_events evs Q) = callbacks Q"
  by (induction evs arbitrary: Q) simp_all

lemma events_cancel_events [simp]: "events (cancel_events evs Q) = events Q"
  by (induction evs arbitrary: Q) simp_all

lemma trace_cancel_events [simp]: "trace (cancel_events evs Q) = trace Q"
  by (induction evs arbitrary: Q) simp_all

text \<open>
  When the device's host is a key of the device table, \<open>unregister\<close> returns normally and
  the device's entries are gone from the three tables.
\<close>

lemma unregister_present:
  assumes "devices R (host d) \<noteq> None"
  shows "\<exists>R'. unregister (Some d) R = (None, R') \<and> devices R' (host d) = None
     \<and> callbacks R' (serialnumber d) = None \<and> events R' (serialnumber d) = None"
  using assms by (auto simp: Let_def split: option.splits)

text \<open>
  C3. The claim is that \<open>unregister\<close> is a no-op, raising nothing, when the device's
  entries are already absent. The code raises \<open>KeyError\<close> there: whenever the device's
  host is not a key of the device table (a device never registered, or unregistered
  before), the subscript \<open>self.devices[device.host]\<close> fails.
\<close>

theorem unregister_absent_host_raises:
  "devices R (host d) = None \<Longrightarrow> fst (unregister (Some d) R) = Some KeyError"
  by (simp add: Let_def split: option.splits)

theorem unregister_absent_host_raises_witness:
  "devices new_registry (host switch) = None \<and>
   fst (unregister (Some switch) new_registry) = Some KeyError \<and>
   fst (unregister (Some switch)
         (snd (unregister (Some switch) (snd (register (Some switch) new_registry)))))
     = Some KeyError"
proof -
  have a: "devices new_registry (host switch) = None" by (simp add: new_registry_def)
  have b: "devices (snd (unregister (Some switch) (snd (register (Some switch) new_registry))))
             (host switch) = None"
    by (simp add: new_registry_def switch_def schedule_def Let_def dict_values_def
          List.map_filter_def)
  show ?thesis
    using unregister_absent_host_raises [OF a] unregister_absent_host_raises [OF b] a by simp
qed

section \<open>Properties of \<open>on\<close> and \<open>event\<close>\<close>





section \<open>Properties of the request handlers\<close>













section \<open>Properties of the timeout arithmetic\<close>

text \<open>
  \<open>int\<close> reads back what \<open>%d\<close> prints; \<open>replace('Second-', '')\<close> turns \<open>Second-<n>\<close> into
  \<open><n>\<close>; and below \<open>2 ^ 51\<close> the double arithmetic is exact, so that \<open>int(n * 0.75)\<close>
  is \<open>3 * n div 4\<close>.
\<close>

lemma digit_chars:
  assumes "k < 10"
  shows "is_digit (''0123456789'' ! k)" "digit_val (''0123456789'' ! k) = k"
    "\<not> is_space (''0123456789'' ! k)" "''0123456789'' ! k \<noteq> CHR ''+''"
    "''0123456789'' ! k \<noteq> CHR ''-''" "''0123456789'' ! k \<noteq> CHR ''S''"
proof -
  have "k = 0 \<or> k = 1 \<or> k = 2 \<or> k = 3 \<or> k = 4 \<or> k = 5 \<or> k = 6 \<or> k = 7 \<or> k = 8 \<or> k = 9"
    using assms by arith
  then show "is_digit (''0123456789'' ! k)" "digit_val (''0123456789'' ! k) = k"
    "\<not> is_space (''0123456789'' ! k)" "''0123456789'' ! k \<noteq> CHR ''+''"
    "''0123456789'' ! k \<noteq> CHR ''-''" "''0123456789'' ! k \<noteq> CHR ''S''"
    by (auto simp: is_digit_def digit_val_def is_space_def is_ascii_space_def)
qed

lemma decimal_digits: "c \<in> set (decimal n) \<Longrightarrow> is_digit c \<and> \<not> is_space c \<and> c \<noteq> CHR ''S''"
proof (induction n rule: decimal.induct)
  case (1 n)
  show ?case
  proof (cases "n < 10")
    case True
    then show ?thesis using "1.prems" digit_chars [of n] by (simp add: decimal.simps [of n])
  next
    case False
    then show ?thesis using "1.prems" "1.IH" digit_chars [of "n mod 10"]
      by (auto simp: decimal.simps [of n])
  qed
qed

lemma decimal_not_Nil: "decimal n \<noteq> []"
  by (simp add: decimal.simps [of n])

lemma digits_value_foldl:
  "\<forall>c \<in> set ds. is_digit c \<Longrightarrow>
     digits_value acc ds = Some (foldl (\<lambda>a c. 10 * a + digit_val c) acc ds)"
  by (induction acc ds rule: digits_value.induct) auto

lemma foldl_decimal: "foldl (\<lambda>a c. 10 * a + digit_val c) 0 (decimal n) = n"
proof (induction n rule: decimal.induct)
  case (1 n)
  show ?case
  proof (cases "n < 10")
    case True
    then show ?thesis using digit_chars(2) [of n] by (simp add: decimal.simps [of n])
  next
    case False
    then show ?thesis using "1.IH" digit_chars(2) [of "n mod 10"]
      by (simp add: decimal.simps [of n])
  qed
qed

lemma py_digits_decimal: "py_digits (decimal n) = Some n"
proof -
  obtain c cs where s: "decimal n = c # cs" using decimal_not_Nil [of n] by (cases "decimal n") auto
  have d: "\<forall>x \<in> set (c # cs). is_digit x" using decimal_digits [of _ n] s by metis
  have "py_digits (c # cs) = digits_value (digit_val c) cs" using d by (simp add: py_digits_def)
  also have "\<dots> = Some (foldl (\<lambda>a c. 10 * a + digit_val c) (digit_val c) cs)"
    using d digits_value_foldl [of cs] by simp
  also have "\<dots> = Some (foldl (\<lambda>a c. 10 * a + digit_val c) 0 (c # cs))" by simp
  finally show ?thesis using foldl_decimal [of n] s by simp
qed

lemma dropWhile_none: "\<forall>c \<in> set s. \<not> P c \<Longrightarrow> dropWhile P s = s"
  by (cases s) auto

lemma py_int_decimal: "py_int (decimal n) = Inr (int n)"
proof -
  have ns: "\<forall>c \<in> set (decimal n). \<not> is_space c" using decimal_digits by blast
  then have st: "strip_with is_space (decimal n) = decimal n"
    by (simp add: strip_with_def dropWhile_none)
  obtain c cs where s: "decimal n = c # cs" using decimal_not_Nil [of n] by (cases "decimal n") auto
  have "is_digit c" using decimal_digits [of c n] s by simp
  then have "c \<noteq> CHR ''+''" "c \<noteq> CHR ''-''" by (auto simp: is_digit_def)
  then show ?thesis using py_digits_decimal [of n] st s
    by (simp add: py_int_def)
qed

lemma str_replace_no_S: "CHR ''S'' \<notin> set s \<Longrightarrow> str_replace ''Second-'' new s = s"
  by (induction s) (auto simp: str_replace.simps)

lemma granted_timeout_parse:
  "py_int (str_replace ''Second-'' [] (''Second-'' @ decimal n)) = Inr (int n)"
proof -
  have "CHR ''S'' \<notin> set (decimal n)" using decimal_digits by blast
  then have "str_replace ''Second-'' [] (decimal n) = decimal n" by (rule str_replace_no_S)
  then have "str_replace ''Second-'' [] (''Second-'' @ decimal n) = decimal n"
    by (simp add: str_replace.simps(2) [of _ _ "CHR ''S''"])
  then show ?thesis by (simp add: py_int_decimal)
qed

lemma int_times_075_exact:
  assumes "n < 2 ^ 51"
  shows "int_times_075 (int n) = Inr (int (3 * n div 4))"
proof -
  have "int n < int (2 ^ 51)" using assms by (simp only: of_nat_less_iff)
  then have n51: "int n < 2 ^ 51" by simp
  have p: "(2::int) ^ 53 = 4 * 2 ^ 51" by simp
  have a: "int n < 2 ^ 53" using n51 unfolding p by linarith
  have b: "3 * int n < 2 ^ 53" using n51 unfolding p by linarith
  have c: "(2::int) ^ 53 < 2 ^ 1024" by (rule power_strict_increasing) simp_all
  have r1: "round53 \<bar>int n\<bar> = int n" using a by (simp add: round53_def)
  have r2: "round53 (3 * int n) = 3 * int n" using b by (simp only: round53_def if_True)
  have lt: "\<not> (2 ^ 1024 \<le> int n)" using a c by linarith
  have f: "py_float_of_int (int n) = Inr (sgn (int n) * int n)"
    unfolding py_float_of_int_def Let_def r1 using lt by (simp only: if_False)
  have s: "sgn (int n) * int n = int n" by (cases "n = 0") simp_all
  have "int_times_075 (int n) = Inr (sgn (int n) * (round53 (3 * \<bar>int n\<bar>) div 4))"
    unfolding int_times_075_def f s by simp
  also have "\<dots> = Inr (sgn (int n) * (3 * int n div 4))" using r2 by simp
  also have "\<dots> = Inr (int (3 * n div 4))" by (cases "n = 0") (simp_all add: zdiv_int)
  finally show ?thesis .
qed

section \<open>Properties of the resubscription protocol\<close>

subsection \<open>How the parts of one attempt fit together\<close>

lemma py_int_error: "py_int s = Inl e \<Longrightarrow> e = ValueError"
  by (auto simp: py_int_def Let_def split: option.splits)

lemma int_times_075_error: "int_times_075 n = Inl e \<Longrightarrow> e = OverflowError"
  by (auto simp: int_times_075_def py_float_of_int_def Let_def split: sum.splits if_splits)

lemma url_fn_apply_error: "url_fn_apply f d = Inl e \<Longrightarrow> e = AttributeError"
  by (cases f) (auto split: option.splits)

lemma subscribe_headers_error: "subscribe_headers E d p sid R = Inl e \<Longrightarrow> e = AttributeError"
  by (auto simp: subscribe_headers_def port_def Let_def split: option.splits)

lemma subscribe_headers_timeout:
  "subscribe_headers E d p sid R = Inr hdrs \<Longrightarrow> map_of hdrs ''TIMEOUT'' = Some ''Second-300''"
  by (auto simp: subscribe_headers_def port_def Let_def split: option.splits)

lemma schedule_result:
  "schedule delay d f sid retry R =
     (let ev = \<lparr>ev_seq = next_seq R, ev_delay = delay, ev_device = d, ev_url_fn = f,
                 ev_sid = sid, ev_retry = retry\<rparr>
      in case events R (serialnumber d) of
           None \<Rightarrow> (Some KeyError, R\<lparr>queue := queue R @ [ev], next_seq := Suc (next_seq R)\<rparr>)
         | Some m \<Rightarrow> (None, R\<lparr>queue := queue R @ [ev], next_seq := Suc (next_seq R),
                             events := (events R)(serialnumber d \<mapsto> m(f \<mapsto> ev))\<rparr>))"
  by (simp add: schedule_def Let_def split: option.splits)

lemma schedule_has_entry:
  assumes "has_entry R d f"
  shows "fst (schedule delay d f sid retry R) = None"
    and "queue (snd (schedule delay d f sid retry R)) =
           queue R @ [\<lparr>ev_seq = next_seq R, ev_delay = delay, ev_device = d, ev_url_fn = f,
                       ev_sid = sid, ev_retry = retry\<rparr>]"
    and "trace (snd (schedule delay d f sid retry R)) = trace R"
  using assms by (auto simp: schedule_result has_entry_def Let_def split: option.splits)

lemma has_entry_do_effect [simp]: "has_entry (do_effect x R) d f = has_entry R d f"
  by (simp add: has_entry_def do_effect_def)

lemma fields_do_effect [simp]:
  "queue (do_effect x R) = queue R" "events (do_effect x R) = events R"
  "next_seq (do_effect x R) = next_seq R" "devices (do_effect x R) = devices R"
  "callbacks (do_effect x R) = callbacks R" "httpd (do_effect x R) = httpd R"
  "trace (do_effect x R) = trace R @ [x]"
  by (simp_all add: do_effect_def)

lemma url_resubscribe_raises:
  assumes "url_fn_apply f d = Inr u"
    and "net E (length (trace R)) ''SUBSCRIBE'' u hdrs = Raises"
  shows "url_resubscribe E d hdrs sid f R
           = (Some RequestException, do_effect (Request ''SUBSCRIBE'' u hdrs) R)"
  using assms by (simp add: url_resubscribe.simps request_def)

lemma url_resubscribe_granted:
  assumes "url_fn_apply f d = Inr u"
    and "net E (length (trace R)) ''SUBSCRIBE'' u hdrs = Response status rh"
    and "\<not> (status = 412 \<and> truthy sid)"
  shows "url_resubscribe E d hdrs sid f R
           = reschedule_granted d hdrs sid f rh (do_effect (Request ''SUBSCRIBE'' u hdrs) R)"
  using assms by (auto simp: url_resubscribe.simps request_def)

lemma resubscribe_unfold:
  assumes "url_fn_apply f d = Inr u"
    and "subscribe_headers E d (last_segment u) sid R = Inr hdrs"
  shows "resubscribe E d f sid retry R =
           (if fst (url_resubscribe E d hdrs sid f R) = Some RequestException
            then retry_later d f sid retry (snd (url_resubscribe E d hdrs sid f R))
            else url_resubscribe E d hdrs sid f R)"
  using assms by (simp add: resubscribe.simps [of E d f sid retry R] split: prod.splits)

lemma fst_schedule: "fst (schedule delay d f sid retry R) \<noteq> Some RequestException"
  by (simp add: schedule_result Let_def split: option.splits)

lemma reschedule_granted_not_request_exception:
  "fst (reschedule_granted d hdrs sid f rh R) \<noteq> Some RequestException"
  using py_int_error int_times_075_error
  by (auto simp: reschedule_granted_def Let_def fst_schedule split: option.splits sum.splits)

subsection \<open>The scenario, evaluated\<close>

lemma start_world: "start world R = (None, R\<lparr>httpd := Some 8991\<rparr>)"
proof -
  have "start_server_from world 0 128 = Some (8989 + 0 + 2)"
    by (rule start_server_from_first) (simp_all add: world_def less_Suc_eq numeral_2_eq_2)
  then show ?thesis by (simp add: start_def start_server_def)
qed

lemma home_fields:
  "devices home = [''10.0.0.5'' \<mapsto> switch]"
  "events home = [''SN1'' \<mapsto> [basic_event_subscription_url \<mapsto> first_event]]"
  "queue home = [first_event]"
  "next_seq home = 1"
  "httpd home = Some 8991"
  "trace home = []"
  "callbacks home = callbacks listening"
  by (simp_all add: home_def start_world schedule_def Let_def switch_def first_event_def
        listening_def on_def new_registry_def)

lemma switch_url:
  "url_fn_apply basic_event_subscription_url switch
     = Inr ''http://10.0.0.5:49153/upnp/event/basicevent1''"
  by (simp add: switch_def)

lemma decimal_8991: "decimal 8991 = ''8991''"
  by (simp add: decimal.simps)

lemma home_initial_headers:
  "subscribe_headers world switch
     (last_segment ''http://10.0.0.5:49153/upnp/event/basicevent1'') None home
     = Inr initial_headers"
  by (simp add: subscribe_headers_def home_fields port_def world_def last_segment_def
        decimal_8991 initial_headers_def)

lemma home_has_entry: "has_entry home switch basic_event_subscription_url"
  by (simp add: has_entry_def home_fields switch_def)

lemma granted_400_timeout: "ci_get granted_400 ''TIMEOUT'' = Some (''Second-'' @ decimal 400)"
  by (simp add: ci_get_def granted_400_def lower_def lower_char_def decimal.simps)

lemma granted_400_sid: "ci_get granted_400 ''sid'' = Some ''uuid:1''"
  by (simp add: ci_get_def granted_400_def lower_def lower_char_def)

lemma int_times_075_400: "int_times_075 (int 400) = Inr 300"
  by (simp add: int_times_075_def py_float_of_int_def round53_def)

subsection \<open>A granted subscription\<close>

text \<open>
  C1. A \<open>SUBSCRIBE\<close> that is answered, by anything but a 412 to a held SID, with
  \<open>TIMEOUT: Second-<n>\<close>: the attempt returns normally; if the timer entry of the
  (device, endpoint) is still there, exactly one event is entered, for the same device and
  endpoint, at delay \<open>int(n * 0.75)\<close> (which is \<open>3 * n div 4\<close> for \<open>n < 2 ^ 51\<close>), with
  the response's SID, or the held one when the response has none; if the entry is gone,
  nothing is entered.
\<close>

theorem resubscribe_success_schedules_three_quarters:
  assumes "url_fn_apply f d = Inr u"
    and "subscribe_headers E d (last_segment u) sid R = Inr hdrs"
    and "net E (length (trace R)) ''SUBSCRIBE'' u hdrs = Response status rh"
    and "\<not> (status = 412 \<and> truthy sid)"
    and "ci_get rh ''TIMEOUT'' = Some (''Second-'' @ decimal n)"
    and "int_times_075 (int n) = Inr delay"
  shows "resubscribe E d f sid retry R =
      (let R1 = do_effect (Request ''SUBSCRIBE'' u hdrs) R;
           sid' = (case ci_get rh ''sid'' of Some s \<Rightarrow> Some s | None \<Rightarrow> sid)
       in if has_entry R d f then schedule delay d f sid' 0 R1 else (None, R1)) \<and>
     fst (resubscribe E d f sid retry R) = None \<and>
     queue (snd (resubscribe E d f sid retry R)) =
       queue R @ (if has_entry R d f
                  then [\<lparr>ev_seq = next_seq R, ev_delay = delay, ev_device = d, ev_url_fn = f,
                          ev_sid = (case ci_get rh ''sid'' of Some s \<Rightarrow> Some s | None \<Rightarrow> sid),
                          ev_retry = 0\<rparr>]
                  else []) \<and>
     (n < 2 ^ 51 \<longrightarrow> delay = int (3 * n div 4))"
proof -
  let ?R1 = "do_effect (Request ''SUBSCRIBE'' u hdrs) R"
  let ?sid = "case ci_get rh ''sid'' of Some s \<Rightarrow> Some s | None \<Rightarrow> sid"
  let ?res = "if has_entry R d f then schedule delay d f ?sid 0 ?R1 else (None, ?R1)"
  have g: "reschedule_granted d hdrs sid f rh ?R1 = ?res"
    unfolding reschedule_granted_def assms(5) option.case granted_timeout_parse sum.case
    using assms(6) by (simp add: Let_def)
  have u: "url_resubscribe E d hdrs sid f R = ?res"
    using url_resubscribe_granted [OF assms(1,3,4)] g by simp
  have "fst ?res \<noteq> Some RequestException" by (simp add: fst_schedule)
  then have r: "resubscribe E d f sid retry R = ?res"
    using resubscribe_unfold [OF assms(1,2), of retry] u by simp
  have q: "fst ?res = None \<and> queue (snd ?res) =
       queue R @ (if has_entry R d f
                  then [\<lparr>ev_seq = next_seq R, ev_delay = delay, ev_device = d, ev_url_fn = f,
                          ev_sid = ?sid, ev_retry = 0\<rparr>]
                  else [])"
    using schedule_has_entry [of ?R1 d f delay ?sid 0] by (cases "has_entry R d f") simp_all
  have e: "n < 2 ^ 51 \<longrightarrow> delay = int (3 * n div 4)"
    using int_times_075_exact [of n] assms(6) by simp
  show ?thesis unfolding r using q e by (simp add: Let_def)
qed


theorem resubscribe_success_schedules_three_quarters_witness:
  "fst (resubscribe world switch basic_event_subscription_url None 0 home) = None \<and>
   queue (snd (resubscribe world switch basic_event_subscription_url None 0 home))
     = [first_event, renewed_event] \<and>
   \<not> has_entry (home\<lparr>events := Map.empty\<rparr>) switch basic_event_subscription_url \<and>
   queue (snd (resubscribe world switch basic_event_subscription_url None 0
                 (home\<lparr>events := Map.empty\<rparr>)))
     = [first_event]"
proof -
  let ?u = "''http://10.0.0.5:49153/upnp/event/basicevent1''"
  have n: "net world (length (trace home)) ''SUBSCRIBE'' ?u initial_headers
             = Response 200 granted_400"
    by (simp add: world_def)
  have c: "\<not> ((200::int) = 412 \<and> truthy None)" by simp
  let ?gone = "home\<lparr>events := Map.empty\<rparr>"
  have h2: "subscribe_headers world switch (last_segment ?u) None ?gone = Inr initial_headers"
    using home_initial_headers by (simp add: subscribe_headers_def port_def)
  have n2: "net world (length (trace ?gone)) ''SUBSCRIBE'' ?u initial_headers
             = Response 200 granted_400"
    by (simp add: world_def)
  have g: "\<not> has_entry ?gone switch basic_event_subscription_url"
    by (simp add: has_entry_def)
  note t1 = resubscribe_success_schedules_three_quarters
            [OF switch_url home_initial_headers n c granted_400_timeout int_times_075_400, of 0]
  note t2 = resubscribe_success_schedules_three_quarters
            [OF switch_url h2 n2 c granted_400_timeout int_times_075_400, of 0]
  have a: "fst (resubscribe world switch basic_event_subscription_url None 0 home) = None"
    using t1 [THEN conjunct2, THEN conjunct1] .
  have b: "queue (snd (resubscribe world switch basic_event_subscription_url None 0 home))
     = [first_event, renewed_event]"
    unfolding t1 [THEN conjunct2, THEN conjunct2, THEN conjunct1]
    using home_has_entry by (simp add: home_fields granted_400_sid renewed_event_def)
  have q: "queue ?gone = [first_event]" by (simp add: home_fields)
  have d: "queue (snd (resubscribe world switch basic_event_subscription_url None 0 ?gone))
     = [first_event]"
    unfolding t2 [THEN conjunct2, THEN conjunct2, THEN conjunct1]
    using g q by simp
  show ?thesis using a b g d by simp
qed

end
